theory Spec2Isabelle
  imports Main "HOL-Library.Word"
begin

unbundle bit_operations_syntax

section \<open>The machine of \<^verbatim>\<open>src/src/main.c\<close>\<close>

text \<open>
  The program keeps two global arrays, \<^verbatim>\<open>uint16_t lsc_memory[1 << 16]\<close> and
  \<^verbatim>\<open>LSC_REGISTER lsc_reg\<close> (an array of \<^verbatim>\<open>LSC_R_COUNT = 10\<close> cells of 16 bits),
  and one local \<^verbatim>\<open>int running\<close> of \<^verbatim>\<open>main\<close>. Memory is indexed by a 16-bit
  address. The register file is indexed by the element offset from \<^verbatim>\<open>&lsc_reg[0]\<close>;
  the array object holds the offsets below \<^verbatim>\<open>LSC_R_COUNT\<close> only.
\<close>

type_synonym u16 = "16 word"

record machine =
  lsc_memory :: "u16 \<Rightarrow> u16"
  lsc_reg :: "nat \<Rightarrow> u16"
  running :: int

subsection \<open>The three anonymous enums\<close>

definition LSC_R_R0 :: nat where "LSC_R_R0 = 0"
definition LSC_R_R7 :: nat where "LSC_R_R7 = 7"
definition LSC_R_PC :: nat where "LSC_R_PC = 8"
definition LSC_R_COND :: nat where "LSC_R_COND = 9"
definition LSC_R_COUNT :: nat where "LSC_R_COUNT = 10"

definition LSC_OP_BR :: u16 where "LSC_OP_BR = 0"
definition LSC_OP_ADD :: u16 where "LSC_OP_ADD = 1"
definition LSC_OP_LD :: u16 where "LSC_OP_LD = 2"
definition LSC_OP_ST :: u16 where "LSC_OP_ST = 3"
definition LSC_OP_JSR :: u16 where "LSC_OP_JSR = 4"
definition LSC_OP_AND :: u16 where "LSC_OP_AND = 5"
definition LSC_OP_LDR :: u16 where "LSC_OP_LDR = 6"
definition LSC_OP_STR :: u16 where "LSC_OP_STR = 7"
definition LSC_OP_RTI :: u16 where "LSC_OP_RTI = 8"
definition LSC_OP_NOT :: u16 where "LSC_OP_NOT = 9"
definition LSC_OP_LDI :: u16 where "LSC_OP_LDI = 10"
definition LSC_OP_STI :: u16 where "LSC_OP_STI = 11"
definition LSC_OP_JMP :: u16 where "LSC_OP_JMP = 12"
definition LSC_OP_RES :: u16 where "LSC_OP_RES = 13"
definition LSC_OP_LEA :: u16 where "LSC_OP_LEA = 14"
definition LSC_OP_TRAP :: u16 where "LSC_OP_TRAP = 15"

definition LSC_FL_POS :: u16 where "LSC_FL_POS = push_bit 0 1"
definition LSC_FL_ZRO :: u16 where "LSC_FL_ZRO = push_bit 1 1"
definition LSC_FL_NEG :: u16 where "LSC_FL_NEG = push_bit 2 1"

subsection \<open>\<^verbatim>\<open>lsc_sign_extend\<close>\<close>

text \<open>
  \<^verbatim>\<open>x\<close> is promoted to \<^verbatim>\<open>int\<close> (32 bits with the makefile's gcc) for both shifts;
  \<^verbatim>\<open>0xFFFF << bit_count\<close> is computed in 32 bits and \<^verbatim>\<open>x |= ...\<close> truncates the
  result to 16 bits. C defines the shifts for \<^verbatim>\<open>1 <= bit_count <= 31\<close> only (gcc
  keeps the wrapped value of the signed left shift at \<^verbatim>\<open>bit_count = 16\<close>); the callers
  pass 5 and 9.
\<close>

definition lsc_sign_extend :: "u16 \<Rightarrow> nat \<Rightarrow> u16" where
  "lsc_sign_extend x bit_count =
     (if drop_bit (bit_count - 1) (ucast x :: 32 word) AND 1 \<noteq> 0
      then ucast ((ucast x :: 32 word) OR push_bit bit_count (0xFFFF :: 32 word))
      else x)"

subsection \<open>\<^verbatim>\<open>lsc_update_flags\<close>\<close>

text \<open>
  The parameter \<^verbatim>\<open>reg\<close> has type \<^verbatim>\<open>LSC_REGISTER *\<close>, a pointer to an array of
  \<^verbatim>\<open>LSC_R_COUNT\<close> cells, and the only caller passes \<^verbatim>\<open>&lsc_reg\<close>. So \<^verbatim>\<open>reg[r]\<close> is
  the \<^verbatim>\<open>r\<close>-th \<^emph>\<open>array\<close> after \<^verbatim>\<open>lsc_reg\<close>, and \<^verbatim>\<open>*reg[r]\<close> is its first cell: the cell
  at element offset \<^verbatim>\<open>LSC_R_COUNT * r\<close> from \<^verbatim>\<open>&lsc_reg[0]\<close>.
\<close>

definition row_offset :: "nat \<Rightarrow> nat" where
  "row_offset r = LSC_R_COUNT * r"

text \<open>An access outside the array object is undefined in C: the model stops with the offset.\<close>

datatype error = OutOfBounds nat

definition load_cell :: "(nat \<Rightarrow> u16) \<Rightarrow> nat \<Rightarrow> error + u16" where
  "load_cell regs i = (if i < LSC_R_COUNT then Inr (regs i) else Inl (OutOfBounds i))"

definition store_cell :: "(nat \<Rightarrow> u16) \<Rightarrow> nat \<Rightarrow> u16 \<Rightarrow> error + (nat \<Rightarrow> u16)" where
  "store_cell regs i v = (if i < LSC_R_COUNT then Inr (regs(i := v)) else Inl (OutOfBounds i))"

text \<open>
  \<^verbatim>\<open>reg[r] == 0\<close> compares the address of an array with the null pointer, and reads no
  cell: it is false for every \<^verbatim>\<open>r\<close>.
\<close>

definition row_is_null :: "nat \<Rightarrow> bool" where
  "row_is_null r = False"

text \<open>
  The store that \<^verbatim>\<open>lsc_update_flags\<close> performs, as the pair of its element offset and
  its value; all three branches store through \<^verbatim>\<open>*reg[LSC_R_COND]\<close>.
\<close>

definition flags_store :: "u16 \<Rightarrow> (nat \<Rightarrow> u16) \<Rightarrow> error + (nat \<times> u16)" where
  "flags_store r regs =
     (if row_is_null (unat r) then Inr (row_offset LSC_R_COND, LSC_FL_ZRO)
      else (case load_cell regs (row_offset (unat r)) of
              Inl e \<Rightarrow> Inl e
            | Inr v \<Rightarrow>
                if drop_bit 15 v \<noteq> 0 then Inr (row_offset LSC_R_COND, LSC_FL_NEG)
                else Inr (row_offset LSC_R_COND, LSC_FL_NEG)))"

definition lsc_update_flags :: "u16 \<Rightarrow> (nat \<Rightarrow> u16) \<Rightarrow> error + (nat \<Rightarrow> u16)" where
  "lsc_update_flags r regs =
     (case flags_store r regs of
        Inl e \<Rightarrow> Inl e
      | Inr (i, v) \<Rightarrow> store_cell regs i v)"

text \<open>The call \<^verbatim>\<open>lsc_update_flags(dr, &lsc_reg)\<close> of the opcode handlers.\<close>

definition update_flags_on :: "u16 \<Rightarrow> machine \<Rightarrow> error + machine" where
  "update_flags_on dr s =
     (case lsc_update_flags dr (lsc_reg s) of
        Inl e \<Rightarrow> Inl e
      | Inr regs \<Rightarrow> Inr (s\<lparr>lsc_reg := regs\<rparr>))"

subsection \<open>The opcode handlers of \<^verbatim>\<open>main\<close>\<close>

text \<open>
  The handlers index \<^verbatim>\<open>lsc_reg\<close> directly with a field masked by \<^verbatim>\<open>0x7\<close> (or
  \<^verbatim>\<open>LSC_R_PC\<close>), which is inside the array. Each handler is split at its call of
  \<^verbatim>\<open>lsc_update_flags\<close>: the \<^verbatim>\<open>_store\<close> function is the machine just before the call.
\<close>

definition op_add_n2 :: "u16 \<Rightarrow> machine \<Rightarrow> u16" where
  "op_add_n2 instr s =
     (let mode = drop_bit 5 instr AND 0x1 in
      if mode = 1 then lsc_sign_extend (instr AND 0x1F) 5
      else (let sr2 = instr AND 0x7 in lsc_reg s (unat sr2)))"

definition op_add_store :: "u16 \<Rightarrow> machine \<Rightarrow> machine" where
  "op_add_store instr s =
     (let dr = drop_bit 9 instr AND 0x7;
          sr = drop_bit 6 instr AND 0x7;
          n2 = op_add_n2 instr s
      in s\<lparr>lsc_reg := (lsc_reg s)(unat dr := lsc_reg s (unat sr) + n2)\<rparr>)"

definition op_add :: "u16 \<Rightarrow> machine \<Rightarrow> error + machine" where
  "op_add instr s = update_flags_on (drop_bit 9 instr AND 0x7) (op_add_store instr s)"

definition op_and_n2 :: "u16 \<Rightarrow> machine \<Rightarrow> u16" where
  "op_and_n2 instr s =
     (let mode = drop_bit 5 instr AND 0x1 in
      if mode = 1 then instr AND 0x1F
      else (let sr2 = instr AND 0x7 in lsc_reg s (unat sr2)))"

definition op_and_store :: "u16 \<Rightarrow> machine \<Rightarrow> machine" where
  "op_and_store instr s =
     (let dr = drop_bit 9 instr AND 0x7;
          sr1 = drop_bit 6 instr AND 0x7;
          n2 = op_and_n2 instr s
      in s\<lparr>lsc_reg := (lsc_reg s)(unat dr := lsc_reg s (unat sr1) AND n2)\<rparr>)"

definition op_and :: "u16 \<Rightarrow> machine \<Rightarrow> error + machine" where
  "op_and instr s = update_flags_on (drop_bit 9 instr AND 0x7) (op_and_store instr s)"

text \<open>
  LDI decodes \<^verbatim>\<open>pcoffset9\<close> with the mask \<^verbatim>\<open>0x9\<close> and \<^verbatim>\<open>dr\<close> with the mask \<^verbatim>\<open>0x3\<close>,
  computes \<^verbatim>\<open>pc_address\<close>, reads no memory and writes no register (the load is a stub),
  and calls \<^verbatim>\<open>lsc_update_flags(dr, &lsc_reg)\<close>.
\<close>

definition op_ldi_pcoffset9 :: "u16 \<Rightarrow> u16" where
  "op_ldi_pcoffset9 instr = lsc_sign_extend (instr AND 0x9) 9"

definition op_ldi_dr :: "u16 \<Rightarrow> u16" where
  "op_ldi_dr instr = drop_bit 9 instr AND 0x3"

definition op_ldi_pc_address :: "u16 \<Rightarrow> machine \<Rightarrow> u16" where
  "op_ldi_pc_address instr s = lsc_reg s LSC_R_PC + op_ldi_pcoffset9 instr"

definition op_ldi_store :: "u16 \<Rightarrow> machine \<Rightarrow> machine" where
  "op_ldi_store instr s =
     (let pcoffset9 = op_ldi_pcoffset9 instr;
          dr = op_ldi_dr instr;
          pc_address = op_ldi_pc_address instr s
      in s)"

definition op_ldi :: "u16 \<Rightarrow> machine \<Rightarrow> error + machine" where
  "op_ldi instr s = update_flags_on (op_ldi_dr instr) (op_ldi_store instr s)"

subsection \<open>The \<^verbatim>\<open>switch\<close>, the loop and \<^verbatim>\<open>main\<close>\<close>

text \<open>
  The cases in the order of the source. \<^verbatim>\<open>LSC_OP_STI\<close> has no case of its own and
  takes \<^verbatim>\<open>default\<close>.
\<close>

definition dispatch :: "u16 \<Rightarrow> machine \<Rightarrow> error + machine" where
  "dispatch instr s =
     (let op = drop_bit 12 instr in
      if op = LSC_OP_ADD then op_add instr s
      else if op = LSC_OP_AND then op_and instr s
      else if op = LSC_OP_NOT then Inr s
      else if op = LSC_OP_BR then Inr s
      else if op = LSC_OP_JMP then Inr s
      else if op = LSC_OP_JSR then Inr s
      else if op = LSC_OP_LD then Inr s
      else if op = LSC_OP_LDI then op_ldi instr s
      else if op = LSC_OP_LDR then Inr s
      else if op = LSC_OP_LEA then Inr s
      else if op = LSC_OP_ST then Inr s
      else if op = LSC_OP_STR then Inr s
      else if op = LSC_OP_TRAP then Inr s
      else if op = LSC_OP_RES then Inr s
      else if op = LSC_OP_RTI then Inr s
      else Inr s)"

text \<open>The fetch is a stub: \<^verbatim>\<open>uint16_t instr = 0;\<close> whatever the machine holds.\<close>

definition fetch :: "machine \<Rightarrow> u16" where
  "fetch s = 0"

definition iteration :: "machine \<Rightarrow> error + machine" where
  "iteration s = (let instr = fetch s in dispatch instr s)"

text \<open>\<^verbatim>\<open>while (running) { ... }\<close>: not returning is \<open>None\<close>.\<close>

partial_function (option) loop :: "machine \<Rightarrow> (error + machine) option" where
  "loop s =
     (if running s \<noteq> 0
      then (case iteration s of Inl e \<Rightarrow> Some (Inl e) | Inr s' \<Rightarrow> loop s')
      else Some (Inr s))"

text \<open>
  The globals start zeroed; \<^verbatim>\<open>main\<close> sets the condition register to \<^verbatim>\<open>LSC_FL_ZRO\<close>,
  the program counter to \<^verbatim>\<open>PC_START\<close> and \<^verbatim>\<open>running\<close> to 1. The loop over the image
  files is a stub and loads nothing.
\<close>

definition PC_START :: u16 where "PC_START = 0x3000"

definition globals_zeroed :: machine where
  "globals_zeroed = \<lparr>lsc_memory = (\<lambda>_. 0), lsc_reg = (\<lambda>_. 0), running = 0\<rparr>"

definition init_machine :: machine where
  "init_machine =
     globals_zeroed\<lparr>lsc_reg := ((lsc_reg globals_zeroed)(LSC_R_COND := LSC_FL_ZRO))(LSC_R_PC := PC_START),
                    running := 1\<rparr>"

datatype outcome = Exit int | Return int machine | Undefined error

definition main :: "int \<Rightarrow> outcome option" where
  "main argc =
     (if argc < 2 then Some (Exit 2)
      else (case loop init_machine of
              None \<Rightarrow> None
            | Some (Inl e) \<Rightarrow> Some (Undefined e)
            | Some (Inr s) \<Rightarrow> Some (Return 0 s)))"

text \<open>The machines the loop passes through, one per evaluation of its condition.\<close>

inductive reachable :: "machine \<Rightarrow> bool" where
  reachable_init: "reachable init_machine"
| reachable_step: "reachable s \<Longrightarrow> running s \<noteq> 0 \<Longrightarrow> iteration s = Inr s' \<Longrightarrow> reachable s'"

text \<open>The property of the condition register: its value is one of the three flags.\<close>

definition one_flag :: "u16 \<Rightarrow> bool" where
  "one_flag c = (c = LSC_FL_POS \<or> c = LSC_FL_ZRO \<or> c = LSC_FL_NEG)"

subsection \<open>The run of the built program\<close>

text \<open>
  The makefile's gcc emits no bounds check: \<^verbatim>\<open>*reg[r]\<close> and \<^verbatim>\<open>*reg[LSC_R_COND]\<close> are
  the cells at their element offsets in the storage that starts at \<^verbatim>\<open>&lsc_reg[0]\<close>, and
  the handler goes on after the call. In this run the cells of \<open>lsc_reg\<close> from
  \<^verbatim>\<open>LSC_R_COUNT\<close> on stand for whatever the linker placed after the register file; no
  statement below depends on what they hold. (Were \<^verbatim>\<open>lsc_memory\<close> placed there, the store
  would land in one of its cells; the program never reads \<^verbatim>\<open>lsc_memory\<close>, and the
  statements about this run speak of the register file.)
\<close>

definition flags_store_raw :: "u16 \<Rightarrow> (nat \<Rightarrow> u16) \<Rightarrow> nat \<times> u16" where
  "flags_store_raw r cells =
     (if row_is_null (unat r) then (row_offset LSC_R_COND, LSC_FL_ZRO)
      else if drop_bit 15 (cells (row_offset (unat r))) \<noteq> 0
        then (row_offset LSC_R_COND, LSC_FL_NEG)
        else (row_offset LSC_R_COND, LSC_FL_NEG))"

definition lsc_update_flags_raw :: "u16 \<Rightarrow> (nat \<Rightarrow> u16) \<Rightarrow> (nat \<Rightarrow> u16)" where
  "lsc_update_flags_raw r cells = (case flags_store_raw r cells of (i, v) \<Rightarrow> cells(i := v))"

definition update_flags_on_raw :: "u16 \<Rightarrow> machine \<Rightarrow> machine" where
  "update_flags_on_raw dr s = s\<lparr>lsc_reg := lsc_update_flags_raw dr (lsc_reg s)\<rparr>"

definition op_add_raw :: "u16 \<Rightarrow> machine \<Rightarrow> machine" where
  "op_add_raw instr s = update_flags_on_raw (drop_bit 9 instr AND 0x7) (op_add_store instr s)"

definition op_and_raw :: "u16 \<Rightarrow> machine \<Rightarrow> machine" where
  "op_and_raw instr s = update_flags_on_raw (drop_bit 9 instr AND 0x7) (op_and_store instr s)"

definition op_ldi_raw :: "u16 \<Rightarrow> machine \<Rightarrow> machine" where
  "op_ldi_raw instr s = update_flags_on_raw (op_ldi_dr instr) (op_ldi_store instr s)"

definition dispatch_raw :: "u16 \<Rightarrow> machine \<Rightarrow> machine" where
  "dispatch_raw instr s =
     (let op = drop_bit 12 instr in
      if op = LSC_OP_ADD then op_add_raw instr s
      else if op = LSC_OP_AND then op_and_raw instr s
      else if op = LSC_OP_NOT then s
      else if op = LSC_OP_BR then s
      else if op = LSC_OP_JMP then s
      else if op = LSC_OP_JSR then s
      else if op = LSC_OP_LD then s
      else if op = LSC_OP_LDI then op_ldi_raw instr s
      else if op = LSC_OP_LDR then s
      else if op = LSC_OP_LEA then s
      else if op = LSC_OP_ST then s
      else if op = LSC_OP_STR then s
      else if op = LSC_OP_TRAP then s
      else if op = LSC_OP_RES then s
      else if op = LSC_OP_RTI then s
      else s)"

section \<open>Evaluation and helper lemmas\<close>

lemmas lsc_enum_defs =
  LSC_R_R0_def LSC_R_R7_def LSC_R_PC_def LSC_R_COND_def LSC_R_COUNT_def
  LSC_OP_BR_def LSC_OP_ADD_def LSC_OP_LD_def LSC_OP_ST_def LSC_OP_JSR_def
  LSC_OP_AND_def LSC_OP_LDR_def LSC_OP_STR_def LSC_OP_RTI_def LSC_OP_NOT_def
  LSC_OP_LDI_def LSC_OP_STI_def LSC_OP_JMP_def LSC_OP_RES_def LSC_OP_LEA_def
  LSC_OP_TRAP_def LSC_FL_POS_def LSC_FL_ZRO_def LSC_FL_NEG_def


lemma flags_distinct:
  "LSC_FL_POS \<noteq> LSC_FL_ZRO" "LSC_FL_POS \<noteq> LSC_FL_NEG" "LSC_FL_ZRO \<noteq> LSC_FL_NEG"
  by (simp_all add: LSC_FL_POS_def LSC_FL_ZRO_def LSC_FL_NEG_def)

lemma iteration_id: "iteration s = Inr s"
  by (simp add: iteration_def fetch_def dispatch_def lsc_enum_defs)

text \<open>
  The loop returns only from a machine whose \<^verbatim>\<open>running\<close> is already 0: no iteration
  changes the machine, so a loop that is entered never ends.
\<close>

lemma loop_returns_only_stopped: "loop s = Some y \<Longrightarrow> running s = 0"
proof (erule loop.raw_induct [rotated])
  fix f :: "machine \<Rightarrow> (error + machine) option" and t r
  assume later: "\<And>x y. f x = Some y \<Longrightarrow> running x = 0"
    and body: "(if running t \<noteq> 0
      then case iteration t of Inl e \<Rightarrow> Some (Inl e) | Inr s' \<Rightarrow> f s'
      else Some (Inr t)) = Some r"
  show "running t = 0"
  proof (rule ccontr)
    assume on: "running t \<noteq> 0"
    with body have "f t = Some r" by (simp add: iteration_id)
    then have "running t = 0" by (rule later)
    with on show False by simp
  qed
qed

lemma loop_never_returns: "running s \<noteq> 0 \<Longrightarrow> loop s = None"
  using loop_returns_only_stopped [of s] by (cases "loop s") auto

lemma running_init: "running init_machine = 1"
  by (simp add: init_machine_def)

lemma main_usage: "argc < 2 \<Longrightarrow> main argc = Some (Exit 2)"
  by (simp add: main_def)

lemma main_never_returns: "2 \<le> argc \<Longrightarrow> main argc = None"
  using loop_never_returns [of init_machine] by (simp add: main_def running_init)

lemma reachable_is_init: "reachable s \<Longrightarrow> s = init_machine"
  by (induction rule: reachable.induct) (simp_all add: iteration_id)

lemma update_flags_faults:
  "lsc_update_flags r regs =
     Inl (OutOfBounds (if r = 0 then row_offset LSC_R_COND else row_offset (unat r)))"
  by (auto simp add: lsc_update_flags_def store_cell_def flags_store_def row_is_null_def
      load_cell_def row_offset_def LSC_R_COUNT_def LSC_R_COND_def unat_eq_0)

lemma update_flags_on_faults: "update_flags_on dr s \<noteq> Inr s'"
  by (simp add: update_flags_on_def update_flags_faults)

text \<open>A dispatch that returns a machine returns the one it was given.\<close>

lemma dispatch_returns_same: "dispatch instr s = Inr s' \<Longrightarrow> s' = s"
  by (auto simp add: dispatch_def Let_def op_add_def op_and_def op_ldi_def
      update_flags_on_faults split: if_splits)

text \<open>
  The two runs agree wherever the checked one goes through: on the store of
  \<^verbatim>\<open>lsc_update_flags\<close> when its read is inside the register file, and on every dispatch
  that returns a machine.
\<close>

lemma flags_store_raw_agrees: "flags_store r regs = Inr p \<Longrightarrow> flags_store_raw r regs = p"
  by (auto simp add: flags_store_def flags_store_raw_def load_cell_def
      split: if_splits sum.splits)

lemma op_add_faults: "op_add instr s \<noteq> Inr s'"
  by (simp add: op_add_def update_flags_on_faults)

lemma op_and_faults: "op_and instr s \<noteq> Inr s'"
  by (simp add: op_and_def update_flags_on_faults)

lemma op_ldi_faults: "op_ldi instr s \<noteq> Inr s'"
  by (simp add: op_ldi_def update_flags_on_faults)

lemma dispatch_raw_agrees:
  assumes "dispatch instr s = Inr s'"
  shows "dispatch_raw instr s = s'"
proof -
  have same: "s' = s" using assms by (rule dispatch_returns_same)
  have no_add: "drop_bit 12 instr \<noteq> LSC_OP_ADD"
    using assms by (auto simp add: dispatch_def op_add_faults)
  have no_and: "drop_bit 12 instr \<noteq> LSC_OP_AND"
    using assms by (auto simp add: dispatch_def op_and_faults lsc_enum_defs)
  have no_ldi: "drop_bit 12 instr \<noteq> LSC_OP_LDI"
    using assms by (auto simp add: dispatch_def op_ldi_faults lsc_enum_defs)
  from no_add no_and no_ldi show ?thesis
    by (simp add: dispatch_raw_def Let_def same)
qed

text \<open>The store of the raw flag update is at offset 90: it leaves the ten registers alone.\<close>

lemma update_flags_raw_frame:
  "k < LSC_R_COUNT \<Longrightarrow> lsc_update_flags_raw r cells k = cells k"
  by (auto simp add: lsc_update_flags_raw_def flags_store_raw_def row_offset_def
      LSC_R_COUNT_def LSC_R_COND_def)

lemma update_flags_on_raw_frame:
  "k < LSC_R_COUNT \<Longrightarrow> lsc_reg (update_flags_on_raw dr s) k = lsc_reg s k"
  by (simp add: update_flags_on_raw_def update_flags_raw_frame)

lemma reg_field_not_cond: "unat ((x :: u16) AND 0x7) \<noteq> LSC_R_COND"
proof -
  have "x AND 0x7 \<le> 0x7" by (rule word_and_le1)
  then have "unat (x AND 0x7) \<le> 7" by (simp add: word_le_nat_alt)
  then show ?thesis by (simp add: LSC_R_COND_def)
qed

lemma cond_in_bounds: "LSC_R_COND < LSC_R_COUNT"
  by (simp add: LSC_R_COND_def LSC_R_COUNT_def)

lemma op_add_raw_cond: "lsc_reg (op_add_raw instr s) LSC_R_COND = lsc_reg s LSC_R_COND"
  using reg_field_not_cond [of "drop_bit 9 instr"]
  by (simp add: op_add_raw_def update_flags_on_raw_frame cond_in_bounds op_add_store_def)

lemma op_and_raw_cond: "lsc_reg (op_and_raw instr s) LSC_R_COND = lsc_reg s LSC_R_COND"
  using reg_field_not_cond [of "drop_bit 9 instr"]
  by (simp add: op_and_raw_def update_flags_on_raw_frame cond_in_bounds op_and_store_def)

lemma op_ldi_raw_cond: "lsc_reg (op_ldi_raw instr s) LSC_R_COND = lsc_reg s LSC_R_COND"
  by (simp add: op_ldi_raw_def update_flags_on_raw_frame cond_in_bounds op_ldi_store_def)

lemma dispatch_raw_cond: "lsc_reg (dispatch_raw instr s) LSC_R_COND = lsc_reg s LSC_R_COND"
  by (simp add: dispatch_raw_def Let_def op_add_raw_cond op_and_raw_cond op_ldi_raw_cond)

lemma fold_dispatch_raw_cond:
  "lsc_reg (fold dispatch_raw instrs s) LSC_R_COND = lsc_reg s LSC_R_COND"
  by (induction instrs arbitrary: s) (simp_all add: dispatch_raw_cond)

lemma cond_init: "lsc_reg init_machine LSC_R_COND = LSC_FL_ZRO"
  by (simp add: init_machine_def LSC_R_COND_def LSC_R_PC_def)

section \<open>The claims\<close>

text \<open>
  C7. For every 16-bit value \<open>v\<close> and every bit width \<open>b\<close> from 1 to 16, sign-extending
  the low \<open>b\<close> bits of \<open>v\<close> with \<^verbatim>\<open>lsc_sign_extend\<close> and masking the result to its low
  \<open>b\<close> bits again gives the low \<open>b\<close> bits of \<open>v\<close>.
\<close>

theorem sign_extend_roundtrip:
  "1 \<le> b \<Longrightarrow> b \<le> 16 \<Longrightarrow> lsc_sign_extend (v AND mask b) b AND mask b = v AND mask b"
  unfolding lsc_sign_extend_def
  by (rule bit_word_eqI) (auto simp: bit_simps)

theorem sign_extend_roundtrip_witness:
  "(1::nat) \<le> 5 \<and> (5::nat) \<le> 16 \<and> lsc_sign_extend (0xABDD AND mask 5) 5 = 0xFFFD
   \<and> lsc_sign_extend (0xABDD AND mask 5) 5 AND mask 5 = 0xABDD AND mask 5"
proof -
  have lo: "(1::nat) \<le> 5" and hi: "(5::nat) \<le> 16" by simp_all
  have ext: "lsc_sign_extend (0xABDD AND mask 5) 5 = 0xFFFD"
    by (simp add: lsc_sign_extend_def mask_eq_exp_minus_1)
  show ?thesis
    using lo hi ext sign_extend_roundtrip [OF lo hi, of "0xABDD"] by simp
qed

text \<open>
  C1. The claim: after \<^verbatim>\<open>lsc_update_flags(r)\<close> the condition register holds the zero flag when
  register \<open>r\<close> is 0, the negative flag when its bit 15 is set, and the positive flag
  otherwise. The code, at \<open>r = 0\<close> with R0 holding 1 and with R0 holding 0: both times the
  value it stores is the negative flag, and the store goes to element offset 90, outside
  the register file, so the condition register is not written.
\<close>

theorem update_flags_wrong_flag:
  "flags_store 0 ((lsc_reg init_machine)(LSC_R_R0 := 1)) = Inr (90, LSC_FL_NEG)
   \<and> flags_store 0 ((lsc_reg init_machine)(LSC_R_R0 := 0)) = Inr (90, LSC_FL_NEG)
   \<and> LSC_FL_NEG \<noteq> LSC_FL_POS \<and> LSC_FL_NEG \<noteq> LSC_FL_ZRO
   \<and> lsc_update_flags 0 ((lsc_reg init_machine)(LSC_R_R0 := 1)) = Inl (OutOfBounds 90)
   \<and> lsc_update_flags 0 ((lsc_reg init_machine)(LSC_R_R0 := 0)) = Inl (OutOfBounds 90)"
  by (simp add: flags_store_def lsc_update_flags_def row_is_null_def load_cell_def
      store_cell_def row_offset_def init_machine_def globals_zeroed_def lsc_enum_defs)

text \<open>
  C2. The claim: each iteration of the loop executes the memory cell at the program counter
  and increments the program counter before decoding. The code, from the machine that
  \<^verbatim>\<open>main\<close> initialises: the program counter is \<^verbatim>\<open>0x3000\<close> before and after the iteration;
  and with \<^verbatim>\<open>0x1021\<close> in the cell at \<^verbatim>\<open>0x3000\<close> the instruction is still 0 and the
  iteration changes nothing.
\<close>

theorem iteration_no_fetch_no_increment:
  "lsc_reg init_machine LSC_R_PC = 0x3000
   \<and> iteration init_machine = Inr init_machine
   \<and> fetch (init_machine\<lparr>lsc_memory := (lsc_memory init_machine)(0x3000 := 0x1021)\<rparr>) = 0
   \<and> iteration (init_machine\<lparr>lsc_memory := (lsc_memory init_machine)(0x3000 := 0x1021)\<rparr>)
       = Inr (init_machine\<lparr>lsc_memory := (lsc_memory init_machine)(0x3000 := 0x1021)\<rparr>)"
  by (simp add: iteration_def fetch_def dispatch_def init_machine_def globals_zeroed_def
      PC_START_def lsc_enum_defs)

text \<open>
  C3. The claim: a TRAP with vector \<^verbatim>\<open>0x25\<close> sets \<^verbatim>\<open>running\<close> to false and ends the loop,
  and nothing else does. The code, dispatching \<^verbatim>\<open>0xF025\<close> on the machine that \<^verbatim>\<open>main\<close>
  initialises: the machine is unchanged, \<^verbatim>\<open>running\<close> is still 1, and the loop from
  there never returns.
\<close>

theorem trap_halt_does_not_stop:
  "drop_bit 12 (0xF025 :: u16) = LSC_OP_TRAP \<and> (0xF025 :: u16) AND 0xFF = 0x25
   \<and> running init_machine = 1
   \<and> dispatch 0xF025 init_machine = Inr init_machine
   \<and> loop init_machine = None"
proof -
  have "dispatch 0xF025 init_machine = Inr init_machine"
    by (simp add: dispatch_def lsc_enum_defs)
  moreover have "loop init_machine = None"
    by (rule loop_never_returns) (simp add: running_init)
  ultimately show ?thesis
    by (simp add: running_init LSC_OP_TRAP_def)
qed

text \<open>
  C4. The claim: AND in immediate mode sign-extends bits 4-0 as ADD does. The code, at
  \<^verbatim>\<open>0x507F\<close> (AND R0, R1, #-1) with R1 holding \<^verbatim>\<open>0xFFFF\<close>: the operand is \<^verbatim>\<open>0x1F\<close>, not
  the sign-extended \<^verbatim>\<open>0xFFFF\<close> that ADD takes from the same field, and R0 receives
  \<^verbatim>\<open>0x1F\<close>, not \<^verbatim>\<open>0xFFFF\<close>.
\<close>

theorem and_immediate_not_sign_extended:
  "drop_bit 12 (0x507F :: u16) = LSC_OP_AND \<and> drop_bit 5 (0x507F :: u16) AND 0x1 = 1
   \<and> op_and_n2 0x507F (init_machine\<lparr>lsc_reg := (lsc_reg init_machine)(1 := 0xFFFF)\<rparr>) = 0x1F
   \<and> lsc_sign_extend (0x507F AND 0x1F) 5 = 0xFFFF
   \<and> op_add_n2 0x107F (init_machine\<lparr>lsc_reg := (lsc_reg init_machine)(1 := 0xFFFF)\<rparr>) = 0xFFFF
   \<and> lsc_reg (op_and_store 0x507F
         (init_machine\<lparr>lsc_reg := (lsc_reg init_machine)(1 := 0xFFFF)\<rparr>)) 0 = 0x1F"
  by (simp add: op_and_store_def op_and_n2_def op_add_n2_def lsc_sign_extend_def
      init_machine_def globals_zeroed_def lsc_enum_defs)

text \<open>
  C5. The claim: LDI sets the register of bits 11-9 to
  \<open>memory[memory[PC + sign-extend(bits 8-0, 9)]]\<close> and updates the flags on it. The code,
  with \<^verbatim>\<open>0x4000\<close> in the cell at the program counter \<^verbatim>\<open>0x3000\<close> and 7 in the cell at
  \<^verbatim>\<open>0x4000\<close>: for \<^verbatim>\<open>0xA800\<close> (LDI R4, #0) the machine before the flag update is the
  machine before the instruction, R4 still 0, and the register decoded is R0; for
  \<^verbatim>\<open>0xA9FF\<close> (LDI R4, #-1) the offset decoded is 9; and the flag update stops out of
  bounds.
\<close>

theorem ldi_loads_nothing:
  "op_ldi_store 0xA800
       (init_machine\<lparr>lsc_memory := (lsc_memory init_machine)(0x3000 := 0x4000, 0x4000 := 7)\<rparr>)
     = init_machine\<lparr>lsc_memory := (lsc_memory init_machine)(0x3000 := 0x4000, 0x4000 := 7)\<rparr>
   \<and> lsc_reg (op_ldi_store 0xA800
       (init_machine\<lparr>lsc_memory := (lsc_memory init_machine)(0x3000 := 0x4000, 0x4000 := 7)\<rparr>)) 4 = 0
   \<and> drop_bit 9 (0xA800 :: u16) AND 0x7 = 4 \<and> op_ldi_dr 0xA800 = 0
   \<and> lsc_sign_extend (0xA9FF AND 0x1FF) 9 = 0xFFFF \<and> op_ldi_pcoffset9 0xA9FF = 9
   \<and> op_ldi 0xA800
       (init_machine\<lparr>lsc_memory := (lsc_memory init_machine)(0x3000 := 0x4000, 0x4000 := 7)\<rparr>)
     = Inl (OutOfBounds 90)"
  by (simp add: op_ldi_def op_ldi_store_def op_ldi_dr_def op_ldi_pcoffset9_def
      op_ldi_pc_address_def update_flags_on_def update_flags_faults row_offset_def
      lsc_sign_extend_def init_machine_def globals_zeroed_def lsc_enum_defs)



text \<open>
  C8. In every machine the loop of \<^verbatim>\<open>main\<close> reaches from the initial machine, and in
  every machine that any sequence of dispatched instructions reaches from it, the condition
  register holds exactly one of the three flags (which are three different values). The
  flag update \<^verbatim>\<open>lsc_update_flags\<close>, for every register index and every content of the
  cells, and the dispatch of every instruction, ADD, AND and LDI included, keep this
  property. The executions are those of the built program.
\<close>

theorem cond_holds_one_flag:
  "(reachable s \<longrightarrow> one_flag (lsc_reg s LSC_R_COND))
   \<and> one_flag (lsc_reg (fold dispatch_raw instrs init_machine) LSC_R_COND)
   \<and> (one_flag (cells LSC_R_COND) \<longrightarrow> one_flag (lsc_update_flags_raw r cells LSC_R_COND))
   \<and> (one_flag (lsc_reg s0 LSC_R_COND) \<longrightarrow> one_flag (lsc_reg (dispatch_raw instr s0) LSC_R_COND))
   \<and> LSC_FL_POS \<noteq> LSC_FL_ZRO \<and> LSC_FL_POS \<noteq> LSC_FL_NEG \<and> LSC_FL_ZRO \<noteq> LSC_FL_NEG"
proof -
  have start: "one_flag (lsc_reg init_machine LSC_R_COND)"
    by (simp add: one_flag_def cond_init)
  then have "reachable s \<longrightarrow> one_flag (lsc_reg s LSC_R_COND)"
    by (auto dest: reachable_is_init)
  moreover from start have "one_flag (lsc_reg (fold dispatch_raw instrs init_machine) LSC_R_COND)"
    by (simp add: fold_dispatch_raw_cond)
  moreover have "one_flag (cells LSC_R_COND) \<longrightarrow> one_flag (lsc_update_flags_raw r cells LSC_R_COND)"
    by (simp add: update_flags_raw_frame cond_in_bounds)
  moreover have "one_flag (lsc_reg s0 LSC_R_COND)
      \<longrightarrow> one_flag (lsc_reg (dispatch_raw instr s0) LSC_R_COND)"
    by (simp add: dispatch_raw_cond)
  ultimately show ?thesis
    by (simp add: flags_distinct)
qed

theorem cond_holds_one_flag_witness:
  "reachable init_machine \<and> lsc_reg init_machine LSC_R_COND = LSC_FL_ZRO
   \<and> one_flag (lsc_reg init_machine LSC_R_COND)
   \<and> drop_bit 12 (0x1021 :: u16) = LSC_OP_ADD
   \<and> lsc_reg (dispatch_raw 0x1021 init_machine) 0 = 1
   \<and> lsc_reg (dispatch_raw 0x1021 init_machine) 90 = LSC_FL_NEG
   \<and> one_flag (lsc_reg (dispatch_raw 0x1021 init_machine) LSC_R_COND)
   \<and> one_flag (lsc_update_flags_raw 0 (lsc_reg init_machine) LSC_R_COND)
   \<and> one_flag (lsc_reg (fold dispatch_raw [0x5020, 0x1021, 0xA000] init_machine) LSC_R_COND)"
proof -
  have r: "reachable init_machine" by (rule reachable_init)
  have c: "lsc_reg init_machine LSC_R_COND = LSC_FL_ZRO" by (rule cond_init)
  have o: "one_flag (lsc_reg init_machine LSC_R_COND)"
    by (simp add: one_flag_def c)
  have op: "drop_bit 12 (0x1021 :: u16) = LSC_OP_ADD"
    by (simp add: LSC_OP_ADD_def)
  have run: "lsc_reg (dispatch_raw 0x1021 init_machine) 0 = 1"
    "lsc_reg (dispatch_raw 0x1021 init_machine) 90 = LSC_FL_NEG"
    by (simp_all add: dispatch_raw_def op_add_raw_def update_flags_on_raw_def
        lsc_update_flags_raw_def flags_store_raw_def row_is_null_def row_offset_def
        op_add_store_def op_add_n2_def lsc_sign_extend_def init_machine_def
        globals_zeroed_def LSC_OP_ADD_def LSC_R_COUNT_def LSC_R_COND_def LSC_R_PC_def)
  from cond_holds_one_flag
    [of init_machine "[0x5020, 0x1021, 0xA000]" "lsc_reg init_machine" 0 init_machine "0x1021"]
  show ?thesis using r c o op run by simp
qed

text \<open>
  C9. The claim: for every register index from 0 to 7 the accesses of
  \<^verbatim>\<open>lsc_update_flags\<close> stay inside the ten cells of the register file, and the flag is
  written to cell 9. The code: \<^verbatim>\<open>*reg[LSC_R_COND]\<close> is the cell at element offset 90 and
  \<^verbatim>\<open>*reg[r]\<close> the cell at offset \<open>10 * r\<close>; for \<open>r = 1\<close> and \<open>r = 7\<close> the read is out of
  bounds, and for \<open>r = 0\<close> the write is.
\<close>

theorem update_flags_out_of_bounds:
  "row_offset LSC_R_COND = 90 \<and> \<not> row_offset LSC_R_COND < LSC_R_COUNT
   \<and> row_offset (unat (1 :: u16)) = 10 \<and> \<not> row_offset (unat (1 :: u16)) < LSC_R_COUNT
   \<and> lsc_update_flags 1 (lsc_reg init_machine) = Inl (OutOfBounds 10)
   \<and> lsc_update_flags 7 (lsc_reg init_machine) = Inl (OutOfBounds 70)
   \<and> lsc_update_flags 0 (lsc_reg init_machine) = Inl (OutOfBounds 90)"
  by (simp add: lsc_update_flags_def flags_store_def store_cell_def load_cell_def
      row_is_null_def row_offset_def LSC_R_COUNT_def LSC_R_COND_def)

text \<open>
  C10. For every instruction whose opcode is NOT, BR, JMP, JSR, LD, LDR, LEA, ST, STR, STI,
  TRAP, RTI or RES, and every machine, the dispatch returns the machine it was given: the
  registers, the program counter, the condition register, the memory and \<^verbatim>\<open>running\<close>
  are unchanged.
\<close>

theorem stub_opcodes_change_nothing:
  "drop_bit 12 instr \<in> {LSC_OP_NOT, LSC_OP_BR, LSC_OP_JMP, LSC_OP_JSR, LSC_OP_LD, LSC_OP_LDR,
      LSC_OP_LEA, LSC_OP_ST, LSC_OP_STR, LSC_OP_STI, LSC_OP_TRAP, LSC_OP_RTI, LSC_OP_RES}
   \<Longrightarrow> dispatch instr s = Inr s"
  by (auto simp add: dispatch_def lsc_enum_defs)

theorem stub_opcodes_change_nothing_witness:
  "drop_bit 12 (0x927F :: u16) = LSC_OP_NOT
   \<and> dispatch 0x927F (init_machine\<lparr>lsc_reg := (lsc_reg init_machine)(1 := 0x00FF)\<rparr>)
       = Inr (init_machine\<lparr>lsc_reg := (lsc_reg init_machine)(1 := 0x00FF)\<rparr>)"
proof -
  have op: "drop_bit 12 (0x927F :: u16) = LSC_OP_NOT"
    by (simp add: LSC_OP_NOT_def)
  then have "drop_bit 12 (0x927F :: u16) \<in> {LSC_OP_NOT, LSC_OP_BR, LSC_OP_JMP, LSC_OP_JSR,
      LSC_OP_LD, LSC_OP_LDR, LSC_OP_LEA, LSC_OP_ST, LSC_OP_STR, LSC_OP_STI, LSC_OP_TRAP,
      LSC_OP_RTI, LSC_OP_RES}"
    by (simp only: insertI1)
  from stub_opcodes_change_nothing [OF this] op
  show ?thesis by blast
qed

end
